theory Spec2Isabelle
  imports Main "HOL-Library.Sublist"
begin

section \<open>Python values\<close>

text \<open>
  The values that \<open>server.py\<close> builds and returns are Python strings, \<open>None\<close>, booleans,
  lists and dictionaries with string keys; a decoded JSON body can also hold integers.
  A dictionary is an association list in insertion order without repeated keys, which is
  the order Python dictionaries keep. Equality of two \<open>PDict\<close> values therefore also fixes
  the insertion order, which is finer than Python's \<open>==\<close> on dictionaries.

  A Python \<open>str\<close> is modelled as a \<open>string\<close> whose characters stand for the code points
  below 256; the non-ASCII letters of the messages of \<open>server.py\<close> are written with
  their code point.
\<close>

datatype pyval =
    PNone
  | PBool bool
  | PInt int
  | PStr string
  | PList "pyval list"
  | PDict "(string \<times> pyval) list"

type_synonym dict = "(string \<times> pyval) list"

text \<open>\<open>isinstance(v, list)\<close>\<close>

fun is_list :: "pyval \<Rightarrow> bool" where
  "is_list (PList xs) = True"
| "is_list v = False"

text \<open>\<open>d[k] = v\<close>: an existing key keeps its position, a new key goes last.\<close>

fun setitem :: "dict \<Rightarrow> string \<Rightarrow> pyval \<Rightarrow> dict" where
  "setitem [] k v = [(k, v)]"
| "setitem ((k', v') # d) k v = (if k' = k then (k, v) # d else (k', v') # setitem d k v)"

text \<open>\<open>d.update(other)\<close>: the items of \<open>other\<close> are stored one by one, in its order.\<close>

fun dict_update :: "dict \<Rightarrow> dict \<Rightarrow> dict" where
  "dict_update d [] = d"
| "dict_update d ((k, v) # other) = dict_update (setitem d k v) other"

subsection \<open>Whitespace\<close>

text \<open>
  \<open>str.isspace\<close> on one character, for the code points below 256: TAB to CR, the
  separators FS to US, the space, NEL and the no-break space.
\<close>

definition isspace :: "char \<Rightarrow> bool" where
  "isspace c = (let n = (of_char c :: nat)
                in (9 \<le> n \<and> n \<le> 13) \<or> (28 \<le> n \<and> n \<le> 32) \<or> n = 133 \<or> n = 160)"

text \<open>\<open>s.strip()\<close>\<close>

definition strip :: "string \<Rightarrow> string" where
  "strip s = rev (dropWhile isspace (rev (dropWhile isspace s)))"

section \<open>The XML normalizer\<close>

text \<open>
  An \<open>xml.etree.ElementTree.Element\<close>: its tag, its attribute dictionary (names and
  values are strings), its direct text (\<open>text_of\<close>, \<open>None\<close> when there is none) and its child
  elements in document order. The \<open>tail\<close> of an element is never read by \<open>server.py\<close>
  and is left out.
\<close>

datatype element =
  Element (tag: string) (attrib: "(string \<times> string) list") (text_of: "string option")
          (children: "element list")

text \<open>The attribute dictionary as a Python value.\<close>

definition attrib_dict :: "(string \<times> string) list \<Rightarrow> pyval" where
  "attrib_dict a = PDict (map (\<lambda>(k, v). (k, PStr v)) a)"

text \<open>
  The body of the loop over the children in \<open>_xml_to_dict\<close>, given the child's tag and
  its converted value:
  \<^verbatim>\<open>
  if child.tag in children:
      if not isinstance(children[child.tag], list):
          children[child.tag] = [children[child.tag]]
      children[child.tag].append(child_data)
  else:
      children[child.tag] = child_data
  \<close>
\<close>

definition merge_child :: "dict \<Rightarrow> string \<Rightarrow> pyval \<Rightarrow> dict" where
  "merge_child children_d child_tag child_data =
     (case map_of children_d child_tag of
        Some old \<Rightarrow>
          (let children_d' =
                 (if \<not> is_list old then setitem children_d child_tag (PList [old])
                  else children_d)
           in (case map_of children_d' child_tag of
                 Some (PList xs) \<Rightarrow> setitem children_d' child_tag (PList (xs @ [child_data]))
               | _ \<Rightarrow> children_d'))
      | None \<Rightarrow> setitem children_d child_tag child_data)"

text \<open>
  \<open>OPSClient._xml_to_dict\<close>. \<open>collect_children\<close> is its \<open>for child in element\<close> loop, with
  the dictionary \<open>children\<close> as accumulator.
\<close>

fun xml_to_dict :: "element \<Rightarrow> pyval"
  and collect_children :: "dict \<Rightarrow> element list \<Rightarrow> dict" where
  "xml_to_dict (Element tg attrs txt kids) =
     (let result = (if attrs \<noteq> [] then setitem [] ''@attributes'' (attrib_dict attrs) else []);
          has_text = (case txt of None \<Rightarrow> False | Some s \<Rightarrow> s \<noteq> [] \<and> strip s \<noteq> []);
          stripped = (case txt of None \<Rightarrow> [] | Some s \<Rightarrow> strip s)
      in if has_text \<and> length kids = 0 then PStr stripped
         else
           (let result = (if has_text then setitem result ''#text'' (PStr stripped) else result);
                children_d = collect_children [] kids;
                result = (if children_d \<noteq> [] then dict_update result children_d else result)
            in if result \<noteq> [] then PDict result else PNone))"
| "collect_children children_d [] = children_d"
| "collect_children children_d (child # rest) =
     (let child_data = xml_to_dict child
      in collect_children (merge_child children_d (tag child) child_data) rest)"

section \<open>Exceptions and the environment\<close>

text \<open>
  A raised exception is its class and the text \<open>str(e)\<close>. \<open>HTTPError\<close> stands for
  \<open>httpx.HTTPError\<close> and its subclasses (transport errors, \<open>HTTPStatusError\<close>),
  \<open>ParseError\<close> for \<open>ET.ParseError\<close>, \<open>OtherException\<close> for any other subclass of
  \<open>Exception\<close>. Every class here is a subclass of \<open>Exception\<close>; asynchronous events
  that are not (cancellation of the task, an interrupt) are outside the model.
\<close>

datatype exn_class =
  OPSError | HTTPError | ParseError | JSONDecodeError | KeyError | TypeError | OtherException

datatype exn = Exn (cls: exn_class) (str_of: string)

definition bind_exn :: "exn + 'a \<Rightarrow> ('a \<Rightarrow> exn + 'b) \<Rightarrow> exn + 'b" where
  "bind_exn r f = (case r of Inl e \<Rightarrow> Inl e | Inr v \<Rightarrow> f v)"

text \<open>\<open>try: body except httpx.HTTPError as e: raise handler(e)\<close>\<close>

definition except_HTTPError :: "(exn \<Rightarrow> exn) \<Rightarrow> exn + 'a \<Rightarrow> exn + 'a" where
  "except_HTTPError handler body =
     (case body of
        Inl e \<Rightarrow> if cls e = HTTPError then Inl (handler e) else Inl e
      | Inr v \<Rightarrow> Inr v)"

text \<open>\<open>try: body except Exception as e: return handler(e)\<close>\<close>

definition except_Exception :: "(exn \<Rightarrow> 'a) \<Rightarrow> exn + 'a \<Rightarrow> exn + 'a" where
  "except_Exception handler body =
     (case body of Inl e \<Rightarrow> Inr (handler e) | Inr v \<Rightarrow> Inr v)"

text \<open>Python's truth value of an object.\<close>

fun truthy :: "pyval \<Rightarrow> bool" where
  "truthy PNone = False"
| "truthy (PBool b) = b"
| "truthy (PInt n) = (n \<noteq> 0)"
| "truthy (PStr s) = (s \<noteq> [])"
| "truthy (PList xs) = (xs \<noteq> [])"
| "truthy (PDict d) = (d \<noteq> [])"

text \<open>
  A header value is a literal string or the formatted string \<open>f"Bearer {access_token}"\<close>,
  kept with the value it formats.
\<close>

datatype header_value = Lit string | Bearer pyval

text \<open>
  The two HTTP requests of \<open>OPSClient\<close>: \<open>client.post(url, auth=, data=, headers=)\<close> and
  \<open>client.get(url, headers=, params=)\<close>.
\<close>

datatype request =
    Post string "string \<times> string" "(string \<times> string) list" "(string \<times> header_value) list"
  | Get string "(string \<times> header_value) list" "(string \<times> string) list"

text \<open>
  An \<open>httpx.Response\<close>: the status code, the header lookup \<open>headers.get\<close> and the
  body \<open>response.text\<close>.
\<close>

record response =
  status_code :: nat
  resp_headers :: "string \<rightharpoonup> string"
  resp_text :: string

text \<open>
  What the program gets from outside, as parameters: the XML parser \<open>ET.fromstring\<close>,
  the JSON decoder \<open>response.json()\<close>, the text of the \<open>HTTPStatusError\<close> that
  \<open>raise_for_status\<close> raises for a response, the text of the \<open>TypeError\<close> raised
  when a value that is not a dictionary is subscripted with a string, \<open>os.getenv\<close>,
  and the network: the response to a request or the exception raised for it.
\<close>

record env =
  fromstring :: "string \<Rightarrow> exn + element"
  json :: "response \<Rightarrow> exn + pyval"
  status_error :: "response \<Rightarrow> string"
  subscript_error :: "pyval \<Rightarrow> string"
  getenv :: "string \<Rightarrow> string option"
  http :: "request \<Rightarrow> exn + response"

text \<open>
  A request is sent: the answer is the environment's, and the request is added to the
  log of requests issued so far (the log is not in the program; it records the network
  I/O).
\<close>

definition http_send :: "env \<Rightarrow> request \<Rightarrow> request list \<Rightarrow> (exn + response) \<times> request list" where
  "http_send ev rq log = (http ev rq, log @ [rq])"

text \<open>\<open>response.raise_for_status()\<close>: an \<open>HTTPStatusError\<close> unless the status is 2xx.\<close>

definition raise_for_status :: "env \<Rightarrow> response \<Rightarrow> exn + unit" where
  "raise_for_status ev r =
     (if 200 \<le> status_code r \<and> status_code r < 300 then Inr ()
      else Inl (Exn HTTPError (status_error ev r)))"

text \<open>\<open>v[k]\<close> for a string \<open>k\<close>\<close>

definition getitem :: "env \<Rightarrow> pyval \<Rightarrow> string \<Rightarrow> exn + pyval" where
  "getitem ev v k =
     (case v of
        PDict d \<Rightarrow>
          (case map_of d k of
             Some x \<Rightarrow> Inr x
           | None \<Rightarrow> Inl (Exn KeyError ([CHR 0x27] @ k @ [CHR 0x27])))
      | _ \<Rightarrow> Inl (Exn TypeError (subscript_error ev v)))"

section \<open>The client\<close>

definition OPS_BASE_URL :: string where
  "OPS_BASE_URL = ''https://ops.epo.org/3.2/rest-services''"

definition USER_AGENT :: string where
  "USER_AGENT = ''ops-mcp-server/1.0''"

text \<open>
  An \<open>OPSClient\<close>: the token and the default headers. Its \<open>httpx.AsyncClient\<close> (the
  connection, the timeout) is not modelled; \<open>__aexit__\<close>, which closes it, changes
  nothing here.
\<close>

record client =
  access_token :: pyval
  headers :: "(string \<times> header_value) list"

text \<open>\<open>OPSClient.__init__\<close>; \<open>OPSClient()\<close> is \<open>OPSClient PNone\<close>.\<close>

definition OPSClient :: "pyval \<Rightarrow> client" where
  "OPSClient tok =
     \<lparr>access_token = tok,
      headers =
        (let h = [(''User-Agent'', Lit USER_AGENT), (''Accept'', Lit ''application/xml'')]
         in if truthy tok then h @ [(''Authorization'', Bearer tok)] else h)\<rparr>"

text \<open>The request of \<open>get_auth_token\<close>.\<close>

definition token_request :: "string \<Rightarrow> string \<Rightarrow> request" where
  "token_request consumer_key consumer_secret =
     Post ''https://ops.epo.org/3.2/auth/accesstoken'' (consumer_key, consumer_secret)
       [(''grant_type'', ''client_credentials'')]
       [(''Content-Type'', Lit ''application/x-www-form-urlencoded'')]"

text \<open>\<open>OPSClient.get_auth_token\<close>\<close>

definition get_auth_token ::
  "env \<Rightarrow> client \<Rightarrow> string \<Rightarrow> string \<Rightarrow> request list \<Rightarrow> (exn + pyval) \<times> request list" where
  "get_auth_token ev self consumer_key consumer_secret log =
     (let (r, log') = http_send ev (token_request consumer_key consumer_secret) log;
          body =
            bind_exn r (\<lambda>response.
            bind_exn (raise_for_status ev response) (\<lambda>_.
            bind_exn (json ev response) (\<lambda>token_data.
            getitem ev token_data ''access_token'')))
      in (except_HTTPError
            (\<lambda>e. Exn OPSError (''Erreur d'authentification: '' @ str_of e)) body, log'))"

text \<open>\<open>OPSClient._parse_xml_response\<close>\<close>

definition parse_xml_response :: "env \<Rightarrow> string \<Rightarrow> exn + pyval" where
  "parse_xml_response ev xml_content =
     (case fromstring ev xml_content of
        Inl e \<Rightarrow>
          if cls e = ParseError then Inr (PDict [(''raw_xml'', PStr xml_content)]) else Inl e
      | Inr root \<Rightarrow>
          (let result = xml_to_dict root
           in case result of
                PStr s \<Rightarrow> Inr (PDict [(''text_content'', result)])
              | PNone \<Rightarrow> Inr (PDict [(''empty'', PBool True)])
              | _ \<Rightarrow> Inr result))"

text \<open>
  \<open>OPSClient.make_request\<close>; \<open>params\<close> is \<open>None\<close> or a dictionary of strings, and
  \<open>params or {}\<close> is the empty dictionary for \<open>None\<close>.
\<close>

definition make_request ::
  "env \<Rightarrow> client \<Rightarrow> string \<Rightarrow> (string \<times> string) list option \<Rightarrow> request list
   \<Rightarrow> (exn + pyval) \<times> request list" where
  "make_request ev self endpoint params log =
     (let url = OPS_BASE_URL @ endpoint;
          (r, log') =
            http_send ev (Get url (headers self) (case params of None \<Rightarrow> [] | Some p \<Rightarrow> p)) log;
          body =
            bind_exn r (\<lambda>response.
            bind_exn (raise_for_status ev response) (\<lambda>_.
              if prefix ''application/xml''
                   (case resp_headers response ''content-type'' of None \<Rightarrow> [] | Some ct \<Rightarrow> ct)
              then parse_xml_response ev (resp_text response)
              else Inr (PDict [(''raw_content'', PStr (resp_text response))])))
      in (except_HTTPError
            (\<lambda>e. Exn OPSError
                    (''Erreur de requ'' @ [CHR 0xEA] @ ''te vers '' @ url @ '': '' @ str_of e))
            body, log'))"

section \<open>The tools\<close>

text \<open>
  The state of the module: the global \<open>ops_client\<close> (\<open>None\<close> at start) and the log of
  the requests issued so far.
\<close>

record state =
  ops_client :: "client option"
  sent :: "request list"

definition not_authenticated :: pyval where
  "not_authenticated =
     PDict [(''error'', PStr ''Veuillez d'abord vous authentifier avec authenticate_ops()'')]"

text \<open>The handler \<open>except Exception as e: return {"error": str(e)}\<close> of the tools.\<close>

definition error_envelope :: "exn \<Rightarrow> pyval" where
  "error_envelope e = PDict [(''error'', PStr (str_of e))]"

text \<open>
  The part that \<open>authenticate_ops\<close> and \<open>authenticate_ops_env\<close> share, their \<open>try\<close>
  statement, with the text returned on success.
\<close>

definition authenticate_with :: "env \<Rightarrow> state \<Rightarrow> string \<Rightarrow> string \<Rightarrow> string \<Rightarrow> (exn + pyval) \<times> state" where
  "authenticate_with ev s consumer_key consumer_secret success =
     (let s1 = s\<lparr>ops_client := Some (OPSClient PNone)\<rparr>;
          (r, log') = get_auth_token ev (OPSClient PNone) consumer_key consumer_secret (sent s1);
          s2 = s1\<lparr>sent := log'\<rparr>
      in case r of
           Inr token \<Rightarrow> (Inr (PStr success), s2\<lparr>ops_client := Some (OPSClient token)\<rparr>)
         | Inl e \<Rightarrow> (Inr (PStr (''Erreur d'authentification: '' @ str_of e)), s2))"

definition authenticate_ops :: "env \<Rightarrow> state \<Rightarrow> string \<Rightarrow> string \<Rightarrow> (exn + pyval) \<times> state" where
  "authenticate_ops ev s consumer_key consumer_secret =
     authenticate_with ev s consumer_key consumer_secret
       (''Authentification r'' @ [CHR 0xE9] @ ''ussie ! Token obtenu et configur'' @ [CHR 0xE9] @ ''.'')"

definition authenticate_ops_env :: "env \<Rightarrow> state \<Rightarrow> (exn + pyval) \<times> state" where
  "authenticate_ops_env ev s =
     (let not_found =
            (Inr (PStr (''Erreur: Variables d'environnement OPS_ID et OPS_SECRET non trouv''
               @ [CHR 0xE9] @ ''es dans le fichier .env'')), s)
      in case (getenv ev ''OPS_ID'', getenv ev ''OPS_SECRET'') of
           (Some consumer_key, Some consumer_secret) \<Rightarrow>
             if consumer_key = [] \<or> consumer_secret = [] then not_found
             else authenticate_with ev s consumer_key consumer_secret
                    (''Authentification r'' @ [CHR 0xE9] @ ''ussie ! Token obtenu et configur''
                     @ [CHR 0xE9] @ '' avec les cl'' @ [CHR 0xE9] @ ''s du .env.'')
         | _ \<Rightarrow> not_found)"

text \<open>
  The body that all the other tools share:
  \<^verbatim>\<open>
  if not ops_client:
      return {"error": "Veuillez d'abord vous authentifier avec authenticate_ops()"}
  try:
      result = await ops_client.make_request(endpoint, params)
      return {<echo>, <key>: result}
  except Exception as e:
      return {"error": str(e)}
  \<close>
  An \<open>OPSClient\<close> object is always true, so \<open>not ops_client\<close> is \<open>ops_client is None\<close>.
\<close>

definition fetch_tool ::
  "env \<Rightarrow> state \<Rightarrow> string \<Rightarrow> (string \<times> string) list option \<Rightarrow> dict \<Rightarrow> string
   \<Rightarrow> (exn + pyval) \<times> state" where
  "fetch_tool ev s endpoint params echo key =
     (case ops_client s of
        None \<Rightarrow> (Inr not_authenticated, s)
      | Some c \<Rightarrow>
          (let (r, log') = make_request ev c endpoint params (sent s)
           in (except_Exception error_envelope
                 (bind_exn r (\<lambda>result. Inr (PDict (echo @ [(key, result)])))),
               s\<lparr>sent := log'\<rparr>)))"

definition search_patents :: "env \<Rightarrow> state \<Rightarrow> string \<Rightarrow> string \<Rightarrow> string \<Rightarrow> (exn + pyval) \<times> state" where
  "search_patents ev s query constituent range_param =
     fetch_tool ev s
       (if constituent \<noteq> ''biblio'' then ''/published-data/search/'' @ constituent
        else ''/published-data/search'')
       (Some [(''q'', query), (''Range'', range_param)])
       [(''query'', PStr query), (''constituent'', PStr constituent), (''range'', PStr range_param)]
       ''results''"

definition get_patent_biblio :: "env \<Rightarrow> state \<Rightarrow> string \<Rightarrow> string \<Rightarrow> string \<Rightarrow> (exn + pyval) \<times> state" where
  "get_patent_biblio ev s reference_type reference_format number =
     fetch_tool ev s
       (''/published-data/'' @ reference_type @ ''/'' @ reference_format @ ''/'' @ number @ ''/biblio'')
       None
       [(''reference_type'', PStr reference_type), (''reference_format'', PStr reference_format),
        (''number'', PStr number)]
       ''biblio_data''"

definition get_patent_abstract :: "env \<Rightarrow> state \<Rightarrow> string \<Rightarrow> string \<Rightarrow> string \<Rightarrow> (exn + pyval) \<times> state" where
  "get_patent_abstract ev s reference_type reference_format number =
     fetch_tool ev s
       (''/published-data/'' @ reference_type @ ''/'' @ reference_format @ ''/'' @ number @ ''/abstract'')
       None
       [(''reference_type'', PStr reference_type), (''reference_format'', PStr reference_format),
        (''number'', PStr number)]
       ''abstract_data''"

definition get_patent_claims :: "env \<Rightarrow> state \<Rightarrow> string \<Rightarrow> string \<Rightarrow> string \<Rightarrow> (exn + pyval) \<times> state" where
  "get_patent_claims ev s reference_type reference_format number =
     fetch_tool ev s
       (''/published-data/'' @ reference_type @ ''/'' @ reference_format @ ''/'' @ number @ ''/claims'')
       None
       [(''reference_type'', PStr reference_type), (''reference_format'', PStr reference_format),
        (''number'', PStr number)]
       ''claims_data''"

definition get_patent_description :: "env \<Rightarrow> state \<Rightarrow> string \<Rightarrow> string \<Rightarrow> string \<Rightarrow> (exn + pyval) \<times> state" where
  "get_patent_description ev s reference_type reference_format number =
     fetch_tool ev s
       (''/published-data/'' @ reference_type @ ''/'' @ reference_format @ ''/'' @ number @ ''/description'')
       None
       [(''reference_type'', PStr reference_type), (''reference_format'', PStr reference_format),
        (''number'', PStr number)]
       ''description_data''"

definition get_patent_equivalents :: "env \<Rightarrow> state \<Rightarrow> string \<Rightarrow> string \<Rightarrow> string \<Rightarrow> (exn + pyval) \<times> state" where
  "get_patent_equivalents ev s reference_type reference_format number =
     fetch_tool ev s
       (''/published-data/'' @ reference_type @ ''/'' @ reference_format @ ''/'' @ number @ ''/equivalents'')
       None
       [(''reference_type'', PStr reference_type), (''reference_format'', PStr reference_format),
        (''number'', PStr number)]
       ''equivalents_data''"

definition get_patent_family ::
  "env \<Rightarrow> state \<Rightarrow> string \<Rightarrow> string \<Rightarrow> string \<Rightarrow> bool \<Rightarrow> (exn + pyval) \<times> state" where
  "get_patent_family ev s reference_type reference_format number include_biblio =
     fetch_tool ev s
       (let endpoint = ''/family/'' @ reference_type @ ''/'' @ reference_format @ ''/'' @ number
        in if include_biblio then endpoint @ ''/biblio'' else endpoint)
       None
       [(''reference_type'', PStr reference_type), (''reference_format'', PStr reference_format),
        (''number'', PStr number), (''include_biblio'', PBool include_biblio)]
       ''family_data''"

definition get_legal_data :: "env \<Rightarrow> state \<Rightarrow> string \<Rightarrow> string \<Rightarrow> string \<Rightarrow> (exn + pyval) \<times> state" where
  "get_legal_data ev s reference_type reference_format number =
     fetch_tool ev s
       (''/legal/'' @ reference_type @ ''/'' @ reference_format @ ''/'' @ number)
       None
       [(''reference_type'', PStr reference_type), (''reference_format'', PStr reference_format),
        (''number'', PStr number)]
       ''legal_data''"

definition search_register_data :: "env \<Rightarrow> state \<Rightarrow> string \<Rightarrow> string \<Rightarrow> string \<Rightarrow> (exn + pyval) \<times> state" where
  "search_register_data ev s query constituent range_param =
     fetch_tool ev s
       (if constituent \<noteq> ''biblio'' then ''/register/search/'' @ constituent
        else ''/register/search'')
       (Some [(''q'', query), (''Range'', range_param)])
       [(''query'', PStr query), (''constituent'', PStr constituent), (''range'', PStr range_param)]
       ''results''"

definition get_cpc_classification ::
  "env \<Rightarrow> state \<Rightarrow> string \<Rightarrow> string option \<Rightarrow> bool \<Rightarrow> bool \<Rightarrow> string \<Rightarrow> (exn + pyval) \<times> state" where
  "get_cpc_classification ev s cpc_class subclass ancestors navigation depth =
     fetch_tool ev s
       (case subclass of
          Some sub \<Rightarrow>
            if sub \<noteq> [] then ''/classification/cpc/'' @ cpc_class @ ''/'' @ sub
            else ''/classification/cpc/'' @ cpc_class
        | None \<Rightarrow> ''/classification/cpc/'' @ cpc_class)
       (Some ((if ancestors then [(''ancestors'', ''true'')] else []) @
              (if navigation then [(''navigation'', ''true'')] else []) @
              (if depth \<noteq> ''1'' then [(''depth'', depth)] else [])))
       [(''cpc_class'', PStr cpc_class),
        (''subclass'', case subclass of None \<Rightarrow> PNone | Some sub \<Rightarrow> PStr sub),
        (''ancestors'', PBool ancestors), (''navigation'', PBool navigation),
        (''depth'', PStr depth)]
       ''classification_data''"

definition convert_patent_number ::
  "env \<Rightarrow> state \<Rightarrow> string \<Rightarrow> string \<Rightarrow> string \<Rightarrow> string \<Rightarrow> (exn + pyval) \<times> state" where
  "convert_patent_number ev s reference_type input_format number output_format =
     fetch_tool ev s
       (''/number-service/'' @ reference_type @ ''/'' @ input_format @ ''/'' @ number @ ''/''
        @ output_format)
       None
       [(''reference_type'', PStr reference_type), (''input_format'', PStr input_format),
        (''input_number'', PStr number), (''output_format'', PStr output_format)]
       ''conversion_result''"

text \<open>
  A call of one of the eleven tools that fetch from the service, with its arguments, and
  the dispatch to the function of that name, as the decorator \<open>@mcp.tool()\<close>
  registers them.
\<close>

datatype tool_call =
    Search_patents string string string
  | Get_patent_biblio string string string
  | Get_patent_abstract string string string
  | Get_patent_claims string string string
  | Get_patent_description string string string
  | Get_patent_equivalents string string string
  | Get_patent_family string string string bool
  | Get_legal_data string string string
  | Search_register_data string string string
  | Get_cpc_classification string "string option" bool bool string
  | Convert_patent_number string string string string

fun call_tool :: "env \<Rightarrow> state \<Rightarrow> tool_call \<Rightarrow> (exn + pyval) \<times> state" where
  "call_tool ev s (Search_patents q c r) = search_patents ev s q c r"
| "call_tool ev s (Get_patent_biblio t f n) = get_patent_biblio ev s t f n"
| "call_tool ev s (Get_patent_abstract t f n) = get_patent_abstract ev s t f n"
| "call_tool ev s (Get_patent_claims t f n) = get_patent_claims ev s t f n"
| "call_tool ev s (Get_patent_description t f n) = get_patent_description ev s t f n"
| "call_tool ev s (Get_patent_equivalents t f n) = get_patent_equivalents ev s t f n"
| "call_tool ev s (Get_patent_family t f n b) = get_patent_family ev s t f n b"
| "call_tool ev s (Get_legal_data t f n) = get_legal_data ev s t f n"
| "call_tool ev s (Search_register_data q c r) = search_register_data ev s q c r"
| "call_tool ev s (Get_cpc_classification c sub a n d) = get_cpc_classification ev s c sub a n d"
| "call_tool ev s (Convert_patent_number t f n out) = convert_patent_number ev s t f n out"

text \<open>The arguments of a call as Python values, in the order of the signature.\<close>

fun args :: "tool_call \<Rightarrow> pyval list" where
  "args (Search_patents q c r) = [PStr q, PStr c, PStr r]"
| "args (Get_patent_biblio t f n) = [PStr t, PStr f, PStr n]"
| "args (Get_patent_abstract t f n) = [PStr t, PStr f, PStr n]"
| "args (Get_patent_claims t f n) = [PStr t, PStr f, PStr n]"
| "args (Get_patent_description t f n) = [PStr t, PStr f, PStr n]"
| "args (Get_patent_equivalents t f n) = [PStr t, PStr f, PStr n]"
| "args (Get_patent_family t f n b) = [PStr t, PStr f, PStr n, PBool b]"
| "args (Get_legal_data t f n) = [PStr t, PStr f, PStr n]"
| "args (Search_register_data q c r) = [PStr q, PStr c, PStr r]"
| "args (Get_cpc_classification c sub a n d) =
     [PStr c, (case sub of None \<Rightarrow> PNone | Some x \<Rightarrow> PStr x), PBool a, PBool n, PStr d]"
| "args (Convert_patent_number t f n out) = [PStr t, PStr f, PStr n, PStr out]"

text \<open>
  The keys of a successful result: the key under which each argument is returned, in
  the order of the arguments, and the key that holds what was fetched. An argument is
  returned under the name of its parameter, except \<open>range_param\<close>, returned under
  \<open>range\<close>, and the \<open>number\<close> of \<open>convert_patent_number\<close>, returned under
  \<open>input_number\<close>.
\<close>

fun echo_keys :: "tool_call \<Rightarrow> string list" where
  "echo_keys (Search_patents q c r) = [''query'', ''constituent'', ''range'']"
| "echo_keys (Get_patent_biblio t f n) = [''reference_type'', ''reference_format'', ''number'']"
| "echo_keys (Get_patent_abstract t f n) = [''reference_type'', ''reference_format'', ''number'']"
| "echo_keys (Get_patent_claims t f n) = [''reference_type'', ''reference_format'', ''number'']"
| "echo_keys (Get_patent_description t f n) = [''reference_type'', ''reference_format'', ''number'']"
| "echo_keys (Get_patent_equivalents t f n) = [''reference_type'', ''reference_format'', ''number'']"
| "echo_keys (Get_patent_family t f n b) =
     [''reference_type'', ''reference_format'', ''number'', ''include_biblio'']"
| "echo_keys (Get_legal_data t f n) = [''reference_type'', ''reference_format'', ''number'']"
| "echo_keys (Search_register_data q c r) = [''query'', ''constituent'', ''range'']"
| "echo_keys (Get_cpc_classification c sub a n d) =
     [''cpc_class'', ''subclass'', ''ancestors'', ''navigation'', ''depth'']"
| "echo_keys (Convert_patent_number t f n out) =
     [''reference_type'', ''input_format'', ''input_number'', ''output_format'']"

fun data_key :: "tool_call \<Rightarrow> string" where
  "data_key (Search_patents q c r) = ''results''"
| "data_key (Get_patent_biblio t f n) = ''biblio_data''"
| "data_key (Get_patent_abstract t f n) = ''abstract_data''"
| "data_key (Get_patent_claims t f n) = ''claims_data''"
| "data_key (Get_patent_description t f n) = ''description_data''"
| "data_key (Get_patent_equivalents t f n) = ''equivalents_data''"
| "data_key (Get_patent_family t f n b) = ''family_data''"
| "data_key (Get_legal_data t f n) = ''legal_data''"
| "data_key (Search_register_data q c r) = ''results''"
| "data_key (Get_cpc_classification c sub a n d) = ''classification_data''"
| "data_key (Convert_patent_number t f n out) = ''conversion_result''"

text \<open>The state when the module is loaded: \<open>ops_client = None\<close>, nothing sent.\<close>

definition initial_state :: state where
  "initial_state = \<lparr>ops_client = None, sent = []\<rparr>"

section \<open>Environments for the examples\<close>

text \<open>
  A network that answers every request with the same response, and one that cannot be
  reached; an environment whose XML parser accepts the document \<open><a/>\<close> only and whose
  JSON decoder accepts two bodies, one holding a token and one an empty object.
\<close>

definition answer :: "nat \<Rightarrow> string \<Rightarrow> string \<Rightarrow> request \<Rightarrow> exn + response" where
  "answer code ctype body rq =
     Inr \<lparr>status_code = code, resp_headers = [''content-type'' \<mapsto> ctype], resp_text = body\<rparr>"

definition unreachable :: "request \<Rightarrow> exn + response" where
  "unreachable rq = Inl (Exn HTTPError ''All connection attempts failed'')"

definition example_env :: "(request \<Rightarrow> exn + response) \<Rightarrow> env" where
  "example_env net =
     \<lparr>fromstring = (\<lambda>s. if s = ''<a/>'' then Inr (Element ''a'' [] None [])
                          else Inl (Exn ParseError ''syntax error: line 1, column 0'')),
      json = (\<lambda>r. if resp_text r = ''token'' then Inr (PDict [(''access_token'', PStr ''tok'')])
                   else if resp_text r = ''{}'' then Inr (PDict [])
                   else Inl (Exn JSONDecodeError ''Expecting value: line 1 column 1 (char 0)'')),
      status_error = (\<lambda>r. if status_code r = 401 then ''Client error 401 Unauthorized'' else ''HTTP status error''),
      subscript_error = (\<lambda>v. ''object is not subscriptable''),
      getenv = (\<lambda>name. None),
      http = net\<rparr>"

section \<open>Lemmas on dictionaries and on the loop over the children\<close>

lemma map_of_setitem: "map_of (setitem d k v) = (map_of d)(k \<mapsto> v)"
  by (induction d k v rule: setitem.induct) auto

lemma setitem_not_Nil: "setitem d k v \<noteq> []"
  by (cases d) (auto split: if_splits)

lemma keys_setitem: "fst ` set (setitem d k v) = insert k (fst ` set d)"
  by (induction d k v rule: setitem.induct) auto

lemma distinct_setitem: "distinct (map fst d) \<Longrightarrow> distinct (map fst (setitem d k v))"
  by (induction d k v rule: setitem.induct) (auto simp: keys_setitem)

lemma map_of_dict_update:
  "distinct (map fst other) \<Longrightarrow> map_of (dict_update d other) = map_of d ++ map_of other"
proof (induction d other rule: dict_update.induct)
  case (1 d)
  then show ?case by simp
next
  case (2 d k v other)
  then have "k \<notin> dom (map_of other)"
    by (auto simp: dom_map_of_conv_image_fst)
  with 2 show ?case
    by (auto simp: map_of_setitem fun_eq_iff map_add_def split: option.splits)
qed

lemma dict_update_keep_not_Nil: "d \<noteq> [] \<Longrightarrow> dict_update d other \<noteq> []"
  by (induction d other rule: dict_update.induct) (auto simp: setitem_not_Nil)

lemma dict_update_not_Nil: "other \<noteq> [] \<Longrightarrow> dict_update d other \<noteq> []"
  by (cases other) (auto simp: setitem_not_Nil dict_update_keep_not_Nil)

lemma strip_Nil_iff: "strip s = [] \<longleftrightarrow> (\<forall>c\<in>set s. isspace c)"
proof
  assume "strip s = []"
  then have all: "\<forall>c\<in>set (dropWhile isspace s). isspace c"
    by (simp add: strip_def)
  show "\<forall>c\<in>set s. isspace c"
  proof (rule ccontr)
    assume "\<not> (\<forall>c\<in>set s. isspace c)"
    then have ne: "dropWhile isspace s \<noteq> []"
      by simp
    then have "\<not> isspace (hd (dropWhile isspace s))"
      by (rule hd_dropWhile)
    moreover have "hd (dropWhile isspace s) \<in> set (dropWhile isspace s)"
      using ne by simp
    ultimately show False using all by blast
  qed
next
  assume "\<forall>c\<in>set s. isspace c"
  then show "strip s = []"
    by (auto simp: strip_def dest: set_dropWhileD)
qed

lemma xml_to_dict_not_list: "\<not> is_list (xml_to_dict e)"
  by (cases e) (simp add: Let_def)

lemma map_of_merge_child_other:
  "t \<noteq> k \<Longrightarrow> map_of (merge_child d k v) t = map_of d t"
  by (auto simp: merge_child_def Let_def map_of_setitem split: option.splits pyval.splits)

lemma map_of_merge_child_new:
  "map_of d k = None \<Longrightarrow> map_of (merge_child d k v) k = Some v"
  by (simp add: merge_child_def map_of_setitem)

lemma map_of_merge_child_single:
  "map_of d k = Some u \<Longrightarrow> \<not> is_list u \<Longrightarrow> map_of (merge_child d k v) k = Some (PList [u, v])"
  by (simp add: merge_child_def Let_def map_of_setitem)

lemma map_of_merge_child_list:
  "map_of d k = Some (PList xs) \<Longrightarrow> map_of (merge_child d k v) k = Some (PList (xs @ [v]))"
  by (simp add: merge_child_def Let_def map_of_setitem)

lemma keys_merge_child: "fst ` set (merge_child d k v) = insert k (fst ` set d)"
proof (cases "map_of d k")
  case None
  then show ?thesis by (simp add: merge_child_def keys_setitem)
next
  case (Some old)
  then have "k \<in> fst ` set d"
    by (meson domI dom_map_of_conv_image_fst[THEN equalityD1, THEN subsetD] map_of_eq_None_iff option.distinct(1))
  with Some show ?thesis
    by (cases old) (auto simp: merge_child_def Let_def keys_setitem map_of_setitem)
qed

lemma distinct_merge_child:
  "distinct (map fst d) \<Longrightarrow> distinct (map fst (merge_child d k v))"
  by (auto simp: merge_child_def Let_def distinct_setitem split: option.splits pyval.splits)

lemma merge_child_not_Nil: "merge_child d k v \<noteq> []"
  by (auto simp: merge_child_def Let_def setitem_not_Nil map_of_setitem split: option.splits pyval.splits)

lemma collect_children_snoc:
  "collect_children d (kids @ [c]) = merge_child (collect_children d kids) (tag c) (xml_to_dict c)"
  by (induction kids arbitrary: d) (simp_all add: Let_def)

lemma keys_collect_children:
  "fst ` set (collect_children d kids) = fst ` set d \<union> tag ` set kids"
  by (induction kids arbitrary: d) (auto simp: Let_def keys_merge_child)

lemma distinct_collect_children:
  "distinct (map fst d) \<Longrightarrow> distinct (map fst (collect_children d kids))"
  by (induction kids arbitrary: d) (auto simp: Let_def distinct_merge_child)

lemma collect_children_Nil_iff: "collect_children [] kids = [] \<longleftrightarrow> kids = []"
  by (cases kids rule: rev_cases) (auto simp: collect_children_snoc merge_child_not_Nil)

lemma map_of_collect_children:
  "map_of (collect_children [] kids) t =
     (case map xml_to_dict (filter (\<lambda>c. tag c = t) kids) of
        [] \<Rightarrow> None | [v] \<Rightarrow> Some v | vs \<Rightarrow> Some (PList vs))"
proof (induction kids rule: rev_induct)
  case Nil
  then show ?case by simp
next
  case (snoc c kids)
  let ?d = "collect_children [] kids"
  let ?vs = "map xml_to_dict (filter (\<lambda>c. tag c = t) kids)"
  show ?case
  proof (cases "tag c = t")
    case False
    then show ?thesis
      using snoc by (simp add: collect_children_snoc map_of_merge_child_other)
  next
    case True
    show ?thesis
    proof (cases ?vs)
      case Nil
      with snoc True show ?thesis
        by (simp add: collect_children_snoc map_of_merge_child_new)
    next
      case (Cons u us)
      note outer = Cons
      have u: "\<not> is_list u"
        using Cons xml_to_dict_not_list
        by (metis list.set_intros(1) imageE list.set_map)
      show ?thesis
      proof (cases us)
        case Nil
        with snoc True outer u show ?thesis
          by (simp add: collect_children_snoc map_of_merge_child_single)
      next
        case (Cons w ws)
        with snoc True outer show ?thesis
          by (simp add: collect_children_snoc map_of_merge_child_list)
      qed
    qed
  qed
qed

text \<open>
  What an element that does not take the leaf return is converted to, and two
  consequences: its attributes are under \<open>@attributes\<close> and its text under \<open>#text\<close>,
  as long as no child has that tag.
\<close>

lemma xml_to_dict_not_leaf:
  assumes "kids \<noteq> [] \<or> \<not> (case txt of None \<Rightarrow> False | Some s \<Rightarrow> s \<noteq> [] \<and> strip s \<noteq> [])"
  shows "xml_to_dict (Element tg attrs txt kids) =
     (let r0 = (if attrs \<noteq> [] then setitem [] ''@attributes'' (attrib_dict attrs) else []);
          r1 = (case txt of
                  None \<Rightarrow> r0
                | Some s \<Rightarrow> if s \<noteq> [] \<and> strip s \<noteq> [] then setitem r0 ''#text'' (PStr (strip s)) else r0);
          r2 = (if kids \<noteq> [] then dict_update r1 (collect_children [] kids) else r1)
      in if r2 \<noteq> [] then PDict r2 else PNone)"
  using assms
  by (cases "txt") (auto simp: Let_def collect_children_Nil_iff)

lemma xml_to_dict_keeps_attributes:
  assumes "attrs \<noteq> []"
    and "kids \<noteq> [] \<or> \<not> (case txt of None \<Rightarrow> False | Some s \<Rightarrow> s \<noteq> [] \<and> strip s \<noteq> [])"
    and "''@attributes'' \<notin> tag ` set kids"
  shows "\<exists>r. xml_to_dict (Element tg attrs txt kids) = PDict r \<and>
             map_of r ''@attributes'' = Some (attrib_dict attrs)"
proof -
  let ?d = "collect_children [] kids"
  have none: "map_of ?d ''@attributes'' = None"
    using assms(3) by (simp add: map_of_eq_None_iff keys_collect_children)
  have dist: "distinct (map fst ?d)"
    by (simp add: distinct_collect_children)
  show ?thesis
    unfolding xml_to_dict_not_leaf [OF assms(2)]
    using assms(1) none dist
    by (cases "txt")
       (auto simp: Let_def map_of_dict_update map_add_def map_of_setitem setitem_not_Nil
          dict_update_keep_not_Nil)
qed

lemma xml_to_dict_keeps_text:
  assumes "s \<noteq> []" and "strip s \<noteq> []" and "kids \<noteq> []" and "''#text'' \<notin> tag ` set kids"
  shows "\<exists>r. xml_to_dict (Element tg attrs (Some s) kids) = PDict r \<and>
             map_of r ''#text'' = Some (PStr (strip s))"
proof -
  let ?d = "collect_children [] kids"
  have none: "map_of ?d ''#text'' = None"
    using assms(4) by (simp add: map_of_eq_None_iff keys_collect_children)
  have dist: "distinct (map fst ?d)"
    by (simp add: distinct_collect_children)
  have nl: "kids \<noteq> [] \<or> \<not> (case Some s of None \<Rightarrow> False | Some s \<Rightarrow> s \<noteq> [] \<and> strip s \<noteq> [])"
    using assms(3) by simp
  show ?thesis
    unfolding xml_to_dict_not_leaf [OF nl]
    using assms(1-3) none dist
    by (auto simp: Let_def map_of_dict_update map_add_def map_of_setitem setitem_not_Nil
          dict_update_keep_not_Nil)
qed

section \<open>Properties of the normalizer\<close>

text \<open>
  C1. An element with non-blank direct text and no children is converted to its
  trimmed text, a string, whatever its attributes are: the attribute dictionary does
  not appear in the output.
\<close>

theorem xml_to_dict_leaf_text:
  assumes "\<exists>c\<in>set s. \<not> isspace c"
  shows "xml_to_dict (Element tg attrs (Some s) []) = PStr (strip s)"
proof -
  from assms have "strip s \<noteq> []"
    by (simp add: strip_Nil_iff)
  moreover from assms have "s \<noteq> []"
    by auto
  ultimately show ?thesis
    by (simp add: Let_def)
qed

theorem xml_to_dict_leaf_text_witness:
  "(\<exists>c\<in>set '' Hello ''. \<not> isspace c) \<and>
   xml_to_dict (Element ''a'' [(''id'', ''1'')] (Some '' Hello '') []) = PStr ''Hello''"
proof -
  have h: "\<exists>c\<in>set '' Hello ''. \<not> isspace c"
    by (simp add: isspace_def)
  have "strip '' Hello '' = ''Hello''"
    by (simp add: strip_def isspace_def)
  with h xml_to_dict_leaf_text [OF h, of "''a''" "[(''id'', ''1'')]"] show ?thesis
    by simp
qed

text \<open>
  C2. The claim is that no information is lost: attributes, text and children all
  reach the output. \<open>_xml_to_dict\<close> stores the attributes in \<open>result\<close> and then
  returns the text alone when there is no child, so \<open><a id="1">x</a>\<close> and
  \<open><a>x</a>\<close> are converted to the same string.
\<close>

theorem xml_to_dict_drops_attributes:
  "xml_to_dict (Element ''a'' [(''id'', ''1'')] (Some ''x'') []) = PStr ''x'' \<and>
   xml_to_dict (Element ''a'' [] (Some ''x'') []) = PStr ''x''"
  by (simp add: strip_def isspace_def)

text \<open>
  C3. Children with the same tag are collected under that tag in document order. With
  \<open>vs\<close> the converted children of tag \<open>t\<close>, in document order: the parent is a
  dictionary that holds under \<open>t\<close> the value itself when \<open>vs\<close> has one element and
  the list \<open>vs\<close> when it has more; no element of \<open>vs\<close> is itself a list, so a tag that
  occurs once is never stored as a list. The same holds of the loop's dictionary after
  every prefix of the children, which is the step-by-step reading: nothing before the
  first occurrence, the single value after it, the two-element list after the second,
  one more element after each later one.
\<close>

theorem xml_to_dict_repeated_tags:
  assumes "vs = map xml_to_dict (filter (\<lambda>c. tag c = t) kids)" and "vs \<noteq> []"
  shows "(\<exists>r. xml_to_dict (Element tg attrs txt kids) = PDict r \<and>
              map_of r t = Some (case vs of [v] \<Rightarrow> v | _ \<Rightarrow> PList vs)) \<and>
         (\<forall>v\<in>set vs. \<not> is_list v) \<and>
         (\<forall>n. map_of (collect_children [] (take n kids)) t =
               (case map xml_to_dict (filter (\<lambda>c. tag c = t) (take n kids)) of
                  [] \<Rightarrow> None | [v] \<Rightarrow> Some v | ws \<Rightarrow> Some (PList ws)))"
proof -
  let ?d = "collect_children [] kids"
  from assms have kids: "kids \<noteq> []"
    by auto
  then have d: "?d \<noteq> []"
    by (simp add: collect_children_Nil_iff)
  have dist: "distinct (map fst ?d)"
    by (simp add: distinct_collect_children)
  have at_t: "map_of ?d t = Some (case vs of [v] \<Rightarrow> v | _ \<Rightarrow> PList vs)"
    using assms by (simp add: map_of_collect_children split: list.splits)
  define r0 where "r0 = (if attrs \<noteq> [] then setitem [] ''@attributes'' (attrib_dict attrs) else [])"
  define has_text where
    "has_text = (case txt of None \<Rightarrow> False | Some s \<Rightarrow> s \<noteq> [] \<and> strip s \<noteq> [])"
  define r1 where
    "r1 = (if has_text then setitem r0 ''#text'' (PStr (case txt of None \<Rightarrow> [] | Some s \<Rightarrow> strip s))
           else r0)"
  have eq: "xml_to_dict (Element tg attrs txt kids) = PDict (dict_update r1 ?d)"
    using kids d by (simp add: Let_def r0_def r1_def has_text_def dict_update_not_Nil)
  have "map_of (dict_update r1 ?d) t = Some (case vs of [v] \<Rightarrow> v | _ \<Rightarrow> PList vs)"
    using dist at_t by (simp add: map_of_dict_update)
  with eq have first: "\<exists>r. xml_to_dict (Element tg attrs txt kids) = PDict r \<and>
      map_of r t = Some (case vs of [v] \<Rightarrow> v | _ \<Rightarrow> PList vs)"
    by blast
  have second: "\<forall>v\<in>set vs. \<not> is_list v"
    using assms(1) by (auto simp: xml_to_dict_not_list)
  have third: "\<forall>n. map_of (collect_children [] (take n kids)) t =
               (case map xml_to_dict (filter (\<lambda>c. tag c = t) (take n kids)) of
                  [] \<Rightarrow> None | [v] \<Rightarrow> Some v | ws \<Rightarrow> Some (PList ws))"
    by (simp add: map_of_collect_children)
  from first second third show ?thesis
    by blast
qed

theorem xml_to_dict_repeated_tags_witness:
  "xml_to_dict (Element ''r'' [] None
      [Element ''c'' [] (Some ''1'') [], Element ''d'' [] None [],
       Element ''c'' [] (Some ''2'') [], Element ''c'' [] (Some ''3'') []])
   = PDict [(''c'', PList [PStr ''1'', PStr ''2'', PStr ''3'']), (''d'', PNone)] \<and>
   (\<exists>r. xml_to_dict (Element ''r'' [] None
      [Element ''c'' [] (Some ''1'') [], Element ''d'' [] None [],
       Element ''c'' [] (Some ''2'') [], Element ''c'' [] (Some ''3'') []]) = PDict r \<and>
        map_of r ''c'' = Some (PList [PStr ''1'', PStr ''2'', PStr ''3'']) \<and>
        map_of r ''d'' = Some PNone)"
proof -
  let ?kids = "[Element ''c'' [] (Some ''1'') [], Element ''d'' [] None [],
       Element ''c'' [] (Some ''2'') [], Element ''c'' [] (Some ''3'') []]"
  have c: "map xml_to_dict (filter (\<lambda>c. tag c = ''c'') ?kids) = [PStr ''1'', PStr ''2'', PStr ''3'']"
    by (simp add: strip_def isspace_def)
  have d: "map xml_to_dict (filter (\<lambda>c. tag c = ''d'') ?kids) = [PNone]"
    by (simp add: strip_def isspace_def)
  have direct: "xml_to_dict (Element ''r'' [] None ?kids)
      = PDict [(''c'', PList [PStr ''1'', PStr ''2'', PStr ''3'']), (''d'', PNone)]"
    by (simp add: strip_def isspace_def merge_child_def)
  from xml_to_dict_repeated_tags [OF c [symmetric], of "''r''" "[]" None]
  have "\<exists>r. xml_to_dict (Element ''r'' [] None ?kids) = PDict r \<and>
        map_of r ''c'' = Some (PList [PStr ''1'', PStr ''2'', PStr ''3''])"
    by simp
  moreover from xml_to_dict_repeated_tags [OF d [symmetric], of "''r''" "[]" None]
  have "\<exists>r. xml_to_dict (Element ''r'' [] None ?kids) = PDict r \<and> map_of r ''d'' = Some PNone"
    by simp
  ultimately show ?thesis
    using direct by auto
qed

text \<open>
  C4. Direct text made of whitespace only counts as no text: the element is converted
  exactly as the same element without text, the result is never a string (the leaf
  return is not taken), the key \<open>#text\<close> is not set (it is in the result only when a
  child has that tag), and with no attributes and no children the result is \<open>None\<close>,
  the empty marker, as for an element that has nothing at all.
\<close>

theorem xml_to_dict_blank_text:
  assumes "\<forall>c\<in>set s. isspace c"
  shows "xml_to_dict (Element tg attrs (Some s) kids) = xml_to_dict (Element tg attrs None kids) \<and>
         (\<forall>x. xml_to_dict (Element tg attrs (Some s) kids) \<noteq> PStr x) \<and>
         (\<forall>r. xml_to_dict (Element tg attrs (Some s) kids) = PDict r \<longrightarrow>
               ''#text'' \<notin> tag ` set kids \<longrightarrow> map_of r ''#text'' = None) \<and>
         xml_to_dict (Element tg [] (Some s) []) = PNone \<and>
         xml_to_dict (Element tg [] None []) = PNone"
proof -
  from assms have blank: "strip s = []"
    by (simp add: strip_Nil_iff)
  then have same: "xml_to_dict (Element tg attrs (Some s) kids) = xml_to_dict (Element tg attrs None kids)"
    by (simp add: Let_def)
  have no_str: "\<forall>x. xml_to_dict (Element tg attrs None kids) \<noteq> PStr x"
    by (simp add: Let_def)
  have no_key: "map_of r ''#text'' = None"
    if r: "xml_to_dict (Element tg attrs None kids) = PDict r" and k: "''#text'' \<notin> tag ` set kids" for r
  proof -
    let ?d = "collect_children [] kids"
    let ?r0 = "if attrs \<noteq> [] then setitem [] ''@attributes'' (attrib_dict attrs) else []"
    have "map_of ?d ''#text'' = None"
      using k by (simp add: map_of_eq_None_iff keys_collect_children)
    moreover have "map_of ?r0 ''#text'' = None"
      by simp
    moreover have "distinct (map fst ?d)"
      by (simp add: distinct_collect_children)
    ultimately have "map_of (dict_update ?r0 ?d) ''#text'' = None"
      by (simp add: map_of_dict_update map_add_def)
    moreover have "r = (if ?d \<noteq> [] then dict_update ?r0 ?d else ?r0)"
      using r by (simp add: Let_def split: if_splits)
    ultimately show ?thesis
      by (simp split: if_splits)
  qed
  have empty: "xml_to_dict (Element tg [] None []) = PNone"
    by simp
  have empty': "xml_to_dict (Element tg [] (Some s) []) = PNone"
    using blank by (simp add: Let_def)
  from same no_str no_key empty empty' show ?thesis
    by simp
qed

theorem xml_to_dict_blank_text_witness:
  "isspace CHR '' '' \<and>
   xml_to_dict (Element ''a'' [] (Some ''   '') []) = PNone \<and>
   xml_to_dict (Element ''a'' [] (Some ''   '') []) = xml_to_dict (Element ''a'' [] None [])"
proof -
  have h: "\<forall>c\<in>set ''   ''. isspace c"
    by (simp add: isspace_def)
  have "isspace CHR '' ''"
    by (simp add: isspace_def)
  with xml_to_dict_blank_text [OF h, of "''a''" "[]" "[]"] show ?thesis
    by simp
qed

section \<open>Lemmas on the client and the tools\<close>

lemma snd_make_request:
  "snd (make_request ev self endpoint params log) =
     log @ [Get (OPS_BASE_URL @ endpoint) (headers self) (case params of None \<Rightarrow> [] | Some p \<Rightarrow> p)]"
  by (simp add: make_request_def http_send_def Let_def)

lemma snd_get_auth_token:
  "snd (get_auth_token ev self k sec log) = log @ [token_request k sec]"
  by (simp add: get_auth_token_def http_send_def Let_def)

lemma xml_to_dict_shape:
  "(\<exists>x. xml_to_dict e = PStr x) \<or> xml_to_dict e = PNone \<or> (\<exists>d. xml_to_dict e = PDict d)"
  by (cases e) (simp add: Let_def)

lemma parse_xml_response_dict:
  assumes "parse_xml_response ev body = Inr v"
  shows "\<exists>d. v = PDict d"
proof (cases "fromstring ev body")
  case (Inl e)
  with assms show ?thesis
    by (auto simp: parse_xml_response_def split: if_splits)
next
  case (Inr root)
  with assms xml_to_dict_shape [of root] show ?thesis
    by (auto simp: parse_xml_response_def Let_def)
qed

lemma make_request_dict:
  assumes "fst (make_request ev self endpoint params log) = Inr v"
  shows "\<exists>d. v = PDict d"
  using assms
  by (auto simp: make_request_def http_send_def Let_def bind_exn_def except_HTTPError_def
        raise_for_status_def
      dest: parse_xml_response_dict split: sum.splits if_splits)

lemma fetch_tool_unauthenticated:
  "ops_client s = None \<Longrightarrow> fetch_tool ev s endpoint params echo key = (Inr not_authenticated, s)"
  by (simp add: fetch_tool_def)

lemma fetch_tool_envelope:
  "\<exists>v. fst (fetch_tool ev s endpoint params echo key) = Inr v \<and>
        ((\<exists>m. v = PDict [(''error'', PStr m)]) \<or> (\<exists>r. v = PDict (echo @ [(key, PDict r)])))"
proof (cases "ops_client s")
  case None
  then show ?thesis
    by (simp add: fetch_tool_unauthenticated not_authenticated_def)
next
  case (Some c)
  show ?thesis
  proof (cases "fst (make_request ev c endpoint params (sent s))")
    case (Inl e)
    with Some show ?thesis
      by (simp add: fetch_tool_def split_beta bind_exn_def except_Exception_def error_envelope_def)
  next
    case (Inr v)
    then obtain d where "v = PDict d"
      using make_request_dict by blast
    with Some Inr show ?thesis
      by (simp add: fetch_tool_def split_beta bind_exn_def except_Exception_def)
  qed
qed

lemma fetch_tool_shape:
  "fst (fetch_tool ev s endpoint params echo key) =
     Inr (case ops_client s of
            None \<Rightarrow> not_authenticated
          | Some c \<Rightarrow>
              (case fst (make_request ev c endpoint params (sent s)) of
                 Inl e \<Rightarrow> PDict [(''error'', PStr (str_of e))]
               | Inr r \<Rightarrow> PDict (echo @ [(key, r)])))"
  by (simp add: fetch_tool_def split_beta bind_exn_def except_Exception_def error_envelope_def
      split: option.splits sum.splits)

lemma snd_fetch_tool:
  "snd (fetch_tool ev s endpoint params echo key) =
     (case ops_client s of
        None \<Rightarrow> s
      | Some c \<Rightarrow> s\<lparr>sent := snd (make_request ev c endpoint params (sent s))\<rparr>)"
  by (cases "ops_client s") (simp_all add: fetch_tool_def split_beta)

lemma via_fetch_tool:
  assumes "call_tool ev s tc = fetch_tool ev s endpoint params echo key"
    and "echo = zip (echo_keys tc) (args tc)"
    and "key = data_key tc"
  shows "\<exists>endpoint params.
      fst (call_tool ev s tc) =
        Inr (case ops_client s of
               None \<Rightarrow> not_authenticated
             | Some c \<Rightarrow>
                 (case fst (make_request ev c endpoint params (sent s)) of
                    Inl e \<Rightarrow> PDict [(''error'', PStr (str_of e))]
                  | Inr r \<Rightarrow> PDict (zip (echo_keys tc) (args tc) @ [(data_key tc, r)]))) \<and>
      snd (call_tool ev s tc) =
        (case ops_client s of
           None \<Rightarrow> s
         | Some c \<Rightarrow> s\<lparr>sent := snd (make_request ev c endpoint params (sent s))\<rparr>) \<and>
      (\<forall>c r. fst (make_request ev c endpoint params (sent s)) = Inr r \<longrightarrow> (\<exists>d. r = PDict d))"
proof -
  have "\<forall>c r. fst (make_request ev c endpoint params (sent s)) = Inr r \<longrightarrow> (\<exists>d. r = PDict d)"
    using make_request_dict by blast
  moreover have "call_tool ev s tc =
      fetch_tool ev s endpoint params (zip (echo_keys tc) (args tc)) (data_key tc)"
    using assms(1) unfolding assms(2) assms(3) .
  ultimately show ?thesis
    by (intro exI [of _ endpoint] exI [of _ params])
       (simp add: fetch_tool_shape snd_fetch_tool)
qed

lemma authenticate_with_text:
  "\<exists>m. fst (authenticate_with ev s k sec ok) = Inr (PStr m)"
  by (cases "fst (get_auth_token ev (OPSClient PNone) k sec (sent s))")
     (simp_all add: authenticate_with_def split_beta Let_def)

lemma make_request_ok:
  assumes "http ev (Get (OPS_BASE_URL @ endpoint) (headers self)
                     (case params of None \<Rightarrow> [] | Some p \<Rightarrow> p)) = Inr resp"
    and "200 \<le> status_code resp" and "status_code resp < 300"
  shows "fst (make_request ev self endpoint params log) =
           except_HTTPError
             (\<lambda>e. Exn OPSError
                (''Erreur de requ'' @ [CHR 0xEA] @ ''te vers '' @ (OPS_BASE_URL @ endpoint) @ '': ''
                 @ str_of e))
             (if prefix ''application/xml''
                   (case resp_headers resp ''content-type'' of None \<Rightarrow> [] | Some ct \<Rightarrow> ct)
              then parse_xml_response ev (resp_text resp)
              else Inr (PDict [(''raw_content'', PStr (resp_text resp))]))"
  using assms
  by (simp add: make_request_def http_send_def Let_def bind_exn_def raise_for_status_def)

lemma parse_xml_response_malformed:
  "fromstring ev body = Inl (Exn ParseError m) \<Longrightarrow>
   parse_xml_response ev body = Inr (PDict [(''raw_xml'', PStr body)])"
  by (simp add: parse_xml_response_def)

lemma get_auth_token_failure:
  assumes "http ev (token_request consumer_key consumer_secret) = Inl (Exn HTTPError m) \<or>
           (\<exists>resp. http ev (token_request consumer_key consumer_secret) = Inr resp \<and>
                   \<not> (200 \<le> status_code resp \<and> status_code resp < 300) \<and>
                   m = status_error ev resp)"
  shows "fst (get_auth_token ev self consumer_key consumer_secret log) =
           Inl (Exn OPSError (''Erreur d'authentification: '' @ m))"
  using assms
  by (auto simp: get_auth_token_def http_send_def Let_def bind_exn_def except_HTTPError_def
        raise_for_status_def)

lemma authenticate_with_failure:
  assumes "fst (get_auth_token ev (OPSClient PNone) k sec (sent s)) = Inl e"
  shows "authenticate_with ev s k sec ok =
           (Inr (PStr (''Erreur d'authentification: '' @ str_of e)),
            \<lparr>ops_client = Some (OPSClient PNone), sent = sent s @ [token_request k sec]\<rparr>)"
  using assms snd_get_auth_token [of ev "OPSClient PNone" k sec "sent s"]
  by (simp add: authenticate_with_def split_beta Let_def)

lemma getitem_missing:
  assumes "\<forall>d. v = PDict d \<longrightarrow> map_of d k = None"
  shows "\<exists>e. getitem ev v k = Inl e \<and> (cls e = KeyError \<or> cls e = TypeError)"
  using assms by (cases v) (simp_all add: getitem_def)

lemma fetch_tools_before_authentication:
  "ops_client s = None \<Longrightarrow> call_tool ev s tc = (Inr not_authenticated, s)"
  by (cases tc)
     (simp_all add: fetch_tool_unauthenticated search_patents_def get_patent_biblio_def
        get_patent_abstract_def get_patent_claims_def get_patent_description_def
        get_patent_equivalents_def get_patent_family_def get_legal_data_def
        search_register_data_def get_cpc_classification_def convert_patent_number_def)

lemma authenticate_with_sets_client:
  "ops_client (snd (authenticate_with ev s k sec ok)) \<noteq> None"
  by (cases "fst (get_auth_token ev (OPSClient PNone) k sec (sent s))")
     (simp_all add: authenticate_with_def split_beta Let_def)

section \<open>Properties of the client and the tools\<close>

text \<open>
  C5. The decoding of a response in \<open>make_request\<close>, for a response with a 2xx status
  and declared content type \<open>ct\<close> (the empty string when the header is missing). When \<open>ct\<close>
  begins with \<open>application/xml\<close> and the parser raises \<open>ParseError\<close> on the body, the
  result is the dictionary \<open>{"raw_xml": body}\<close> and nothing is raised. When \<open>ct\<close> does not
  begin with \<open>application/xml\<close>, the result is \<open>{"raw_content": body}\<close>. A \<open>ParseError\<close>
  never leaves \<open>_parse_xml_response\<close>.
\<close>

theorem make_request_decode:
  assumes "http ev (Get (OPS_BASE_URL @ endpoint) (headers self)
                     (case params of None \<Rightarrow> [] | Some p \<Rightarrow> p)) = Inr resp"
    and "200 \<le> status_code resp" and "status_code resp < 300"
    and "ct = (case resp_headers resp ''content-type'' of None \<Rightarrow> [] | Some c \<Rightarrow> c)"
  shows "(prefix ''application/xml'' ct \<longrightarrow>
            (\<forall>m. fromstring ev (resp_text resp) = Inl (Exn ParseError m) \<longrightarrow>
                 fst (make_request ev self endpoint params log) =
                   Inr (PDict [(''raw_xml'', PStr (resp_text resp))]))) \<and>
         (\<not> prefix ''application/xml'' ct \<longrightarrow>
            fst (make_request ev self endpoint params log) =
              Inr (PDict [(''raw_content'', PStr (resp_text resp))])) \<and>
         (\<forall>body m. fromstring ev body = Inl (Exn ParseError m) \<longrightarrow>
              parse_xml_response ev body = Inr (PDict [(''raw_xml'', PStr body)]))"
  using make_request_ok [OF assms(1-3), of log] assms(4)
  by (simp add: parse_xml_response_malformed except_HTTPError_def)

theorem make_request_decode_witness:
  "fst (make_request (example_env (answer 200 ''application/xml; charset=UTF-8'' ''<a''))
          (OPSClient (PStr ''tok'')) ''/published-data/search'' None [])
     = Inr (PDict [(''raw_xml'', PStr ''<a'')]) \<and>
   fst (make_request (example_env (answer 200 ''text/plain'' ''<a''))
          (OPSClient (PStr ''tok'')) ''/published-data/search'' None [])
     = Inr (PDict [(''raw_content'', PStr ''<a'')])"
proof -
  let ?self = "OPSClient (PStr ''tok'')"
  let ?x = "\<lparr>status_code = 200, resp_headers = [''content-type'' \<mapsto> ''application/xml; charset=UTF-8''],
             resp_text = ''<a''\<rparr>"
  let ?p = "\<lparr>status_code = 200, resp_headers = [''content-type'' \<mapsto> ''text/plain''],
             resp_text = ''<a''\<rparr>"
  have x: "http (example_env (answer 200 ''application/xml; charset=UTF-8'' ''<a''))
             (Get (OPS_BASE_URL @ ''/published-data/search'') (headers ?self)
                (case None of None \<Rightarrow> [] | Some p \<Rightarrow> p)) = Inr ?x"
    by (simp add: example_env_def answer_def)
  have p: "http (example_env (answer 200 ''text/plain'' ''<a''))
             (Get (OPS_BASE_URL @ ''/published-data/search'') (headers ?self)
                (case None of None \<Rightarrow> [] | Some p \<Rightarrow> p)) = Inr ?p"
    by (simp add: example_env_def answer_def)
  have "fst (make_request (example_env (answer 200 ''application/xml; charset=UTF-8'' ''<a''))
          ?self ''/published-data/search'' None []) = Inr (PDict [(''raw_xml'', PStr ''<a'')])"
    using make_request_decode [OF x, of "''application/xml; charset=UTF-8''" "[]"]
    by (simp add: example_env_def)
  moreover have "fst (make_request (example_env (answer 200 ''text/plain'' ''<a''))
          ?self ''/published-data/search'' None []) = Inr (PDict [(''raw_content'', PStr ''<a'')])"
    using make_request_decode [OF p, of "''text/plain''" "[]"]
    by simp
  ultimately show ?thesis
    by simp
qed

text \<open>
  C6. The claim is that a fetching tool called before any successful authentication
  returns the fixed error dictionary and sends nothing, also after an authentication
  that failed. \<open>authenticate_ops\<close> assigns \<open>ops_client = OPSClient()\<close> before it asks for
  the token and leaves it there when the exchange fails, so the test \<open>not ops_client\<close>
  of the tools no longer holds: after a token exchange answered with status 401,
  \<open>search_patents\<close> sends its GET request, without an \<open>Authorization\<close> header, and
  returns the error of that request.
\<close>

theorem failed_authentication_then_search:
  "search_patents (example_env (answer 401 ''text/html'' ''''))
     (snd (authenticate_ops (example_env (answer 401 ''text/html'' '''')) initial_state
             ''key'' ''secret''))
     ''ti=solar'' ''biblio'' ''1-25''
   = (Inr (PDict [(''error'', PStr (''Erreur de requ'' @ [CHR 0xEA] @
         ''te vers https://ops.epo.org/3.2/rest-services/published-data/search: Client error 401 Unauthorized''))]),
      \<lparr>ops_client = Some (OPSClient PNone),
       sent = [token_request ''key'' ''secret'',
               Get ''https://ops.epo.org/3.2/rest-services/published-data/search''
                 [(''User-Agent'', Lit ''ops-mcp-server/1.0''), (''Accept'', Lit ''application/xml'')]
                 [(''q'', ''ti=solar''), (''Range'', ''1-25'')]]\<rparr>)"
proof -
  let ?ev = "example_env (answer 401 ''text/html'' '''')"
  have h: "http ?ev (token_request ''key'' ''secret'') = Inl (Exn HTTPError ''Client error 401 Unauthorized'') \<or>
           (\<exists>resp. http ?ev (token_request ''key'' ''secret'') = Inr resp \<and>
                   \<not> (200 \<le> status_code resp \<and> status_code resp < 300) \<and>
                   ''Client error 401 Unauthorized'' = status_error ?ev resp)"
    by (simp add: example_env_def answer_def)
  have auth: "snd (authenticate_ops ?ev initial_state ''key'' ''secret'') =
          \<lparr>ops_client = Some (OPSClient PNone), sent = [token_request ''key'' ''secret'']\<rparr>"
    using authenticate_with_failure [OF get_auth_token_failure [OF h], of initial_state]
    by (simp add: authenticate_ops_def initial_state_def)
  have req: "make_request ?ev (OPSClient PNone) ''/published-data/search''
               (Some [(''q'', ''ti=solar''), (''Range'', ''1-25'')]) [token_request ''key'' ''secret'']
     = (Inl (Exn OPSError (''Erreur de requ'' @ [CHR 0xEA] @
         ''te vers https://ops.epo.org/3.2/rest-services/published-data/search: Client error 401 Unauthorized'')),
        [token_request ''key'' ''secret'',
               Get ''https://ops.epo.org/3.2/rest-services/published-data/search''
                 [(''User-Agent'', Lit ''ops-mcp-server/1.0''), (''Accept'', Lit ''application/xml'')]
                 [(''q'', ''ti=solar''), (''Range'', ''1-25'')]])"
    by (simp add: make_request_def http_send_def Let_def bind_exn_def raise_for_status_def
          except_HTTPError_def example_env_def answer_def OPS_BASE_URL_def OPSClient_def
          USER_AGENT_def)
  show ?thesis
    unfolding auth
    by (simp add: search_patents_def fetch_tool_def req bind_exn_def except_Exception_def
          error_envelope_def)
qed

text \<open>
  C7. When the token request fails, by an \<open>httpx.HTTPError\<close> of the transport with text
  \<open>m\<close> or by a response whose status is not 2xx, for which \<open>raise_for_status\<close> raises
  an error with text \<open>m\<close>, \<open>get_auth_token\<close> raises \<open>OPSError\<close> with the text
  \<open>Erreur d'authentification: m\<close>; \<open>authenticate_ops\<close> returns that text behind its own
  prefix, and the client it leaves in \<open>ops_client\<close> has no token and no
  \<open>Authorization\<close> header.
\<close>

theorem token_exchange_failure:
  assumes "http ev (token_request consumer_key consumer_secret) = Inl (Exn HTTPError m) \<or>
           (\<exists>resp. http ev (token_request consumer_key consumer_secret) = Inr resp \<and>
                   \<not> (200 \<le> status_code resp \<and> status_code resp < 300) \<and>
                   m = status_error ev resp)"
  shows "fst (get_auth_token ev self consumer_key consumer_secret log) =
           Inl (Exn OPSError (''Erreur d'authentification: '' @ m)) \<and>
         fst (authenticate_ops ev s consumer_key consumer_secret) =
           Inr (PStr (''Erreur d'authentification: Erreur d'authentification: '' @ m)) \<and>
         (\<exists>c. ops_client (snd (authenticate_ops ev s consumer_key consumer_secret)) = Some c \<and>
              access_token c = PNone \<and> ''Authorization'' \<notin> fst ` set (headers c))"
proof -
  have tok: "fst (get_auth_token ev self' consumer_key consumer_secret log') =
           Inl (Exn OPSError (''Erreur d'authentification: '' @ m))" for self' log'
    using assms by (rule get_auth_token_failure)
  have "authenticate_ops ev s consumer_key consumer_secret =
          (Inr (PStr (''Erreur d'authentification: '' @ ''Erreur d'authentification: '' @ m)),
           \<lparr>ops_client = Some (OPSClient PNone),
            sent = sent s @ [token_request consumer_key consumer_secret]\<rparr>)"
    using authenticate_with_failure [OF tok] by (simp add: authenticate_ops_def)
  moreover have "access_token (OPSClient PNone) = PNone \<and>
      ''Authorization'' \<notin> fst ` set (headers (OPSClient PNone))"
    by (simp add: OPSClient_def)
  ultimately show ?thesis
    using tok by simp
qed

theorem token_exchange_failure_witness:
  "fst (get_auth_token (example_env (answer 401 ''text/html'' ''''))
          (OPSClient PNone) ''key'' ''secret'' [])
     = Inl (Exn OPSError ''Erreur d'authentification: Client error 401 Unauthorized'') \<and>
   ops_client (snd (authenticate_ops (example_env (answer 401 ''text/html'' ''''))
          \<lparr>ops_client = Some (OPSClient (PStr ''old'')), sent = []\<rparr> ''key'' ''secret''))
     = Some \<lparr>access_token = PNone,
             headers = [(''User-Agent'', Lit ''ops-mcp-server/1.0''),
                        (''Accept'', Lit ''application/xml'')]\<rparr> \<and>
   fst (get_auth_token (example_env unreachable) (OPSClient PNone) ''key'' ''secret'' [])
     = Inl (Exn OPSError ''Erreur d'authentification: All connection attempts failed'')"
proof -
  let ?ev = "example_env (answer 401 ''text/html'' '''')"
  let ?s = "\<lparr>ops_client = Some (OPSClient (PStr ''old'')), sent = []\<rparr>"
  have h: "http ?ev (token_request ''key'' ''secret'') = Inl (Exn HTTPError ''Client error 401 Unauthorized'') \<or>
           (\<exists>resp. http ?ev (token_request ''key'' ''secret'') = Inr resp \<and>
                   \<not> (200 \<le> status_code resp \<and> status_code resp < 300) \<and>
                   ''Client error 401 Unauthorized'' = status_error ?ev resp)"
    by (simp add: example_env_def answer_def)
  have g: "http (example_env unreachable) (token_request ''key'' ''secret'')
             = Inl (Exn HTTPError ''All connection attempts failed'') \<or>
           (\<exists>resp. http (example_env unreachable) (token_request ''key'' ''secret'') = Inr resp \<and>
                   \<not> (200 \<le> status_code resp \<and> status_code resp < 300) \<and>
                   ''All connection attempts failed'' = status_error (example_env unreachable) resp)"
    by (simp add: example_env_def unreachable_def)
  have "authenticate_ops ?ev ?s ''key'' ''secret'' =
          (Inr (PStr (''Erreur d'authentification: '' @ ''Erreur d'authentification: '' @ ''Client error 401 Unauthorized'')),
           \<lparr>ops_client = Some (OPSClient PNone), sent = sent ?s @ [token_request ''key'' ''secret'']\<rparr>)"
    using authenticate_with_failure [OF get_auth_token_failure [OF h]]
    by (simp add: authenticate_ops_def)
  then have st: "ops_client (snd (authenticate_ops ?ev ?s ''key'' ''secret'')) = Some (OPSClient PNone)"
    by simp
  from token_exchange_failure [OF h, of "OPSClient PNone" "[]" ?s]
       token_exchange_failure [OF g, of "OPSClient PNone" "[]" ?s] st
  show ?thesis
    by (simp add: OPSClient_def USER_AGENT_def)
qed

text \<open>
  C9. The test for XML is \<open>startswith("application/xml")\<close> on the header value as it is:
  for a 2xx response whose content type does not begin with exactly these characters
  (\<open>text/xml\<close> and \<open>Application/XML\<close> in the examples), the result is
  \<open>{"raw_content": body}\<close> whatever the XML parser is, so the body is not parsed; when it
  does begin with them, the result is that of \<open>_parse_xml_response\<close>.
\<close>

theorem make_request_xml_dispatch:
  assumes "http ev (Get (OPS_BASE_URL @ endpoint) (headers self)
                     (case params of None \<Rightarrow> [] | Some p \<Rightarrow> p)) = Inr resp"
    and "200 \<le> status_code resp" and "status_code resp < 300"
    and "ct = (case resp_headers resp ''content-type'' of None \<Rightarrow> [] | Some c \<Rightarrow> c)"
  shows "(\<not> prefix ''application/xml'' ct \<longrightarrow>
            fst (make_request ev self endpoint params log) =
              Inr (PDict [(''raw_content'', PStr (resp_text resp))]) \<and>
            (\<forall>parser. fst (make_request (ev\<lparr>fromstring := parser\<rparr>) self endpoint params log) =
                 Inr (PDict [(''raw_content'', PStr (resp_text resp))]))) \<and>
         (prefix ''application/xml'' ct \<longrightarrow>
            (\<forall>v. parse_xml_response ev (resp_text resp) = Inr v \<longrightarrow>
                 fst (make_request ev self endpoint params log) = Inr v))"
proof -
  have "http (ev\<lparr>fromstring := parser\<rparr>) (Get (OPS_BASE_URL @ endpoint) (headers self)
                     (case params of None \<Rightarrow> [] | Some p \<Rightarrow> p)) = Inr resp" for parser
    using assms(1) by simp
  from make_request_ok [OF this assms(2,3), of _ log] make_request_ok [OF assms(1-3), of log] assms(4)
  show ?thesis
    by (simp add: except_HTTPError_def)
qed

theorem make_request_xml_dispatch_witness:
  "fst (make_request (example_env (answer 200 ''text/xml'' ''<a/>''))
          (OPSClient (PStr ''tok'')) ''/published-data/search'' None [])
     = Inr (PDict [(''raw_content'', PStr ''<a/>'')]) \<and>
   fst (make_request (example_env (answer 200 ''Application/XML'' ''<a/>''))
          (OPSClient (PStr ''tok'')) ''/published-data/search'' None [])
     = Inr (PDict [(''raw_content'', PStr ''<a/>'')]) \<and>
   fst (make_request (example_env (answer 200 ''application/xml'' ''<a/>''))
          (OPSClient (PStr ''tok'')) ''/published-data/search'' None [])
     = Inr (PDict [(''empty'', PBool True)])"
proof -
  let ?self = "OPSClient (PStr ''tok'')"
  have h: "http (example_env (answer 200 c ''<a/>''))
             (Get (OPS_BASE_URL @ ''/published-data/search'') (headers ?self)
                (case None of None \<Rightarrow> [] | Some p \<Rightarrow> p))
           = Inr \<lparr>status_code = 200, resp_headers = [''content-type'' \<mapsto> c], resp_text = ''<a/>''\<rparr>"
    for c
    by (simp add: example_env_def answer_def)
  have "fst (make_request (example_env (answer 200 ''text/xml'' ''<a/>''))
          ?self ''/published-data/search'' None []) = Inr (PDict [(''raw_content'', PStr ''<a/>'')])"
    using make_request_xml_dispatch [OF h, of "''text/xml''" "''text/xml''" "[]"]
    by simp
  moreover have "fst (make_request (example_env (answer 200 ''Application/XML'' ''<a/>''))
          ?self ''/published-data/search'' None []) = Inr (PDict [(''raw_content'', PStr ''<a/>'')])"
    using make_request_xml_dispatch [OF h, of "''Application/XML''" "''Application/XML''" "[]"]
    by simp
  moreover have "fst (make_request (example_env (answer 200 ''application/xml'' ''<a/>''))
          ?self ''/published-data/search'' None []) = Inr (PDict [(''empty'', PBool True)])"
    using make_request_xml_dispatch [OF h, of "''application/xml''" "''application/xml''" "[]"]
    by (simp add: parse_xml_response_def example_env_def)
  ultimately show ?thesis
    by simp
qed

text \<open>
  C8, as amended. None of the tools raises. Each of the eleven tools that fetch returns
  a dictionary: the fixed error dictionary when there is no client, \<open>{"error": str(e)}\<close>
  when \<open>make_request\<close> raises \<open>e\<close>, and otherwise the dictionary that holds each
  argument under its key (\<open>echo_keys\<close>: the parameter's name, except \<open>range\<close> for
  \<open>range_param\<close> and \<open>input_number\<close> for the \<open>number\<close> of \<open>convert_patent_number\<close>),
  in the order of the arguments, followed by the key of the tool (\<open>data_key\<close>:
  \<open>results\<close> for the two searches, \<open>biblio_data\<close>, \<open>abstract_data\<close>, \<open>claims_data\<close>,
  \<open>description_data\<close>, \<open>equivalents_data\<close>, \<open>family_data\<close>, \<open>legal_data\<close>,
  \<open>classification_data\<close>, and \<open>conversion_result\<close> for \<open>convert_patent_number\<close>) that holds
  what \<open>make_request\<close> returned, which is always a dictionary. The call changes the state
  by the request of that \<open>make_request\<close> only. The two authentication tools return a
  string in every case.
\<close>

theorem tools_return_envelopes:
  "(\<exists>endpoint params.
      fst (call_tool ev s tc) =
        Inr (case ops_client s of
               None \<Rightarrow> not_authenticated
             | Some c \<Rightarrow>
                 (case fst (make_request ev c endpoint params (sent s)) of
                    Inl e \<Rightarrow> PDict [(''error'', PStr (str_of e))]
                  | Inr r \<Rightarrow> PDict (zip (echo_keys tc) (args tc) @ [(data_key tc, r)]))) \<and>
      snd (call_tool ev s tc) =
        (case ops_client s of
           None \<Rightarrow> s
         | Some c \<Rightarrow> s\<lparr>sent := snd (make_request ev c endpoint params (sent s))\<rparr>) \<and>
      (\<forall>c r. fst (make_request ev c endpoint params (sent s)) = Inr r \<longrightarrow> (\<exists>d. r = PDict d))) \<and>
   length (echo_keys tc) = length (args tc) \<and>
   (data_key tc = ''results'' \<or> suffix ''_data'' (data_key tc) \<or>
    data_key tc = ''conversion_result'') \<and>
   (\<exists>m. fst (authenticate_ops ev s consumer_key consumer_secret) = Inr (PStr m)) \<and>
   (\<exists>m. fst (authenticate_ops_env ev s) = Inr (PStr m))"
proof (intro conjI)
  show "\<exists>m. fst (authenticate_ops ev s consumer_key consumer_secret) = Inr (PStr m)"
    by (simp add: authenticate_ops_def authenticate_with_text)
  show "\<exists>m. fst (authenticate_ops_env ev s) = Inr (PStr m)"
    by (simp add: authenticate_ops_env_def Let_def authenticate_with_text split: option.splits)
  show "length (echo_keys tc) = length (args tc)"
    by (cases tc) simp_all
  show "data_key tc = ''results'' \<or> suffix ''_data'' (data_key tc) \<or>
        data_key tc = ''conversion_result''"
    by (cases tc) (simp_all add: suffix_def)
  show "\<exists>endpoint params.
      fst (call_tool ev s tc) =
        Inr (case ops_client s of
               None \<Rightarrow> not_authenticated
             | Some c \<Rightarrow>
                 (case fst (make_request ev c endpoint params (sent s)) of
                    Inl e \<Rightarrow> PDict [(''error'', PStr (str_of e))]
                  | Inr r \<Rightarrow> PDict (zip (echo_keys tc) (args tc) @ [(data_key tc, r)]))) \<and>
      snd (call_tool ev s tc) =
        (case ops_client s of
           None \<Rightarrow> s
         | Some c \<Rightarrow> s\<lparr>sent := snd (make_request ev c endpoint params (sent s))\<rparr>) \<and>
      (\<forall>c r. fst (make_request ev c endpoint params (sent s)) = Inr r \<longrightarrow> (\<exists>d. r = PDict d))"
  proof (cases tc)
    case (Search_patents q c r)
    show ?thesis
      by (rule via_fetch_tool, unfold Search_patents call_tool.simps search_patents_def, rule refl)
         simp_all
  next
    case (Get_patent_biblio t f n)
    show ?thesis
      by (rule via_fetch_tool, unfold Get_patent_biblio call_tool.simps get_patent_biblio_def, rule refl)
         simp_all
  next
    case (Get_patent_abstract t f n)
    show ?thesis
      by (rule via_fetch_tool, unfold Get_patent_abstract call_tool.simps get_patent_abstract_def, rule refl)
         simp_all
  next
    case (Get_patent_claims t f n)
    show ?thesis
      by (rule via_fetch_tool, unfold Get_patent_claims call_tool.simps get_patent_claims_def, rule refl)
         simp_all
  next
    case (Get_patent_description t f n)
    show ?thesis
      by (rule via_fetch_tool, unfold Get_patent_description call_tool.simps get_patent_description_def, rule refl)
         simp_all
  next
    case (Get_patent_equivalents t f n)
    show ?thesis
      by (rule via_fetch_tool, unfold Get_patent_equivalents call_tool.simps get_patent_equivalents_def, rule refl)
         simp_all
  next
    case (Get_patent_family t f n b)
    show ?thesis
      by (rule via_fetch_tool, unfold Get_patent_family call_tool.simps get_patent_family_def, rule refl)
         simp_all
  next
    case (Get_legal_data t f n)
    show ?thesis
      by (rule via_fetch_tool, unfold Get_legal_data call_tool.simps get_legal_data_def, rule refl)
         simp_all
  next
    case (Search_register_data q c r)
    show ?thesis
      by (rule via_fetch_tool, unfold Search_register_data call_tool.simps search_register_data_def, rule refl)
         simp_all
  next
    case (Get_cpc_classification c sub a n d)
    show ?thesis
      by (rule via_fetch_tool, unfold Get_cpc_classification call_tool.simps get_cpc_classification_def, rule refl)
         simp_all
  next
    case (Convert_patent_number t f n out)
    show ?thesis
      by (rule via_fetch_tool, unfold Convert_patent_number call_tool.simps convert_patent_number_def, rule refl)
         simp_all
  qed
qed

theorem tools_return_envelopes_witness:
  "fst (call_tool (example_env (answer 200 ''application/xml'' ''<a/>''))
          \<lparr>ops_client = Some (OPSClient (PStr ''tok'')), sent = []\<rparr>
          (Search_patents ''ti=solar'' ''biblio'' ''1-25''))
     = Inr (PDict [(''query'', PStr ''ti=solar''), (''constituent'', PStr ''biblio''),
                   (''range'', PStr ''1-25''), (''results'', PDict [(''empty'', PBool True)])]) \<and>
   fst (call_tool (example_env (answer 500 ''text/html'' ''''))
          \<lparr>ops_client = Some (OPSClient (PStr ''tok'')), sent = []\<rparr>
          (Search_patents ''ti=solar'' ''biblio'' ''1-25''))
     = Inr (PDict [(''error'', PStr (''Erreur de requ'' @ [CHR 0xEA] @
         ''te vers https://ops.epo.org/3.2/rest-services/published-data/search: HTTP status error''))])"
proof -
  let ?s = "\<lparr>ops_client = Some (OPSClient (PStr ''tok'')), sent = []\<rparr>"
  have ok: "fst (make_request (example_env (answer 200 ''application/xml'' ''<a/>''))
               (OPSClient (PStr ''tok'')) ''/published-data/search''
               (Some [(''q'', ''ti=solar''), (''Range'', ''1-25'')]) [])
     = Inr (PDict [(''empty'', PBool True)])"
    by (simp add: make_request_def http_send_def Let_def bind_exn_def raise_for_status_def
          except_HTTPError_def example_env_def answer_def parse_xml_response_def)
  have bad: "fst (make_request (example_env (answer 500 ''text/html'' ''''))
               (OPSClient (PStr ''tok'')) ''/published-data/search''
               (Some [(''q'', ''ti=solar''), (''Range'', ''1-25'')]) [])
     = Inl (Exn OPSError (''Erreur de requ'' @ [CHR 0xEA] @
         ''te vers https://ops.epo.org/3.2/rest-services/published-data/search: HTTP status error''))"
    by (simp add: make_request_def http_send_def Let_def bind_exn_def raise_for_status_def
          except_HTTPError_def example_env_def answer_def OPS_BASE_URL_def)
  from tools_return_envelopes
         [where tc = "Search_patents ''ti=solar'' ''biblio'' ''1-25''"
            and ev = "example_env (answer 200 ''application/xml'' ''<a/>'')" and s = ?s
            and consumer_key = "''key''" and consumer_secret = "''secret''"]
       ok bad
  show ?thesis
    by (simp add: search_patents_def fetch_tool_shape)
qed

text \<open>
  C8 as stated fails on the authentication tools, which return a string and not a
  dictionary with the key \<open>error\<close>, and on \<open>convert_patent_number\<close>, whose result is
  under the key \<open>conversion_result\<close> and whose parameter \<open>number\<close> is echoed under
  \<open>input_number\<close>.
\<close>

theorem authentication_tool_returns_text:
  "fst (authenticate_ops (example_env unreachable) initial_state ''key'' ''secret'')
     = Inr (PStr ''Erreur d'authentification: Erreur d'authentification: All connection attempts failed'') \<and>
   fst (convert_patent_number (example_env (answer 200 ''application/xml'' ''<a/>''))
          \<lparr>ops_client = Some (OPSClient (PStr ''tok'')), sent = []\<rparr>
          ''publication'' ''epodoc'' ''EP1000000'' ''docdb'')
     = Inr (PDict [(''reference_type'', PStr ''publication''), (''input_format'', PStr ''epodoc''),
                   (''input_number'', PStr ''EP1000000''), (''output_format'', PStr ''docdb''),
                   (''conversion_result'', PDict [(''empty'', PBool True)])])"
proof -
  have g: "http (example_env unreachable) (token_request ''key'' ''secret'')
             = Inl (Exn HTTPError ''All connection attempts failed'') \<or>
           (\<exists>resp. http (example_env unreachable) (token_request ''key'' ''secret'') = Inr resp \<and>
                   \<not> (200 \<le> status_code resp \<and> status_code resp < 300) \<and>
                   ''All connection attempts failed'' = status_error (example_env unreachable) resp)"
    by (simp add: example_env_def unreachable_def)
  have one: "fst (authenticate_ops (example_env unreachable) initial_state ''key'' ''secret'')
     = Inr (PStr ''Erreur d'authentification: Erreur d'authentification: All connection attempts failed'')"
    using authenticate_with_failure [OF get_auth_token_failure [OF g], of initial_state]
    by (simp add: authenticate_ops_def)
  have req: "fst (make_request (example_env (answer 200 ''application/xml'' ''<a/>''))
               (OPSClient (PStr ''tok'')) ''/number-service/publication/epodoc/EP1000000/docdb'' None [])
     = Inr (PDict [(''empty'', PBool True)])"
    by (simp add: make_request_def http_send_def Let_def bind_exn_def raise_for_status_def
          except_HTTPError_def example_env_def answer_def parse_xml_response_def)
  have two: "fst (convert_patent_number (example_env (answer 200 ''application/xml'' ''<a/>''))
          \<lparr>ops_client = Some (OPSClient (PStr ''tok'')), sent = []\<rparr>
          ''publication'' ''epodoc'' ''EP1000000'' ''docdb'')
     = Inr (PDict [(''reference_type'', PStr ''publication''), (''input_format'', PStr ''epodoc''),
                   (''input_number'', PStr ''EP1000000''), (''output_format'', PStr ''docdb''),
                   (''conversion_result'', PDict [(''empty'', PBool True)])])"
    using req by (simp add: convert_patent_number_def fetch_tool_shape)
  from one two show ?thesis
    by simp
qed

text \<open>
  C10. For a token response with a 2xx status whose body the JSON decoder rejects, or
  whose decoded value is not a dictionary with the key \<open>access_token\<close>,
  \<open>get_auth_token\<close> raises an exception that is not \<open>OPSError\<close>: the decoder's own
  error, a \<open>KeyError\<close> or a \<open>TypeError\<close>, since only \<open>httpx.HTTPError\<close> is caught.
\<close>

theorem token_response_without_token:
  assumes "http ev (token_request consumer_key consumer_secret) = Inr resp"
    and "200 \<le> status_code resp" and "status_code resp < 300"
    and "(\<exists>m. json ev resp = Inl (Exn JSONDecodeError m)) \<or>
         (\<exists>v. json ev resp = Inr v \<and> (\<forall>d. v = PDict d \<longrightarrow> map_of d ''access_token'' = None))"
  shows "\<exists>e. fst (get_auth_token ev self consumer_key consumer_secret log) = Inl e \<and>
             cls e \<noteq> OPSError \<and>
             (json ev resp = Inl e \<or> cls e = KeyError \<or> cls e = TypeError)"
proof -
  have body: "fst (get_auth_token ev self consumer_key consumer_secret log) =
      except_HTTPError (\<lambda>e. Exn OPSError (''Erreur d'authentification: '' @ str_of e))
        (bind_exn (json ev resp) (\<lambda>token_data. getitem ev token_data ''access_token''))"
    using assms(1-3)
    by (simp add: get_auth_token_def http_send_def Let_def bind_exn_def raise_for_status_def)
  from assms(4) show ?thesis
  proof
    assume "\<exists>m. json ev resp = Inl (Exn JSONDecodeError m)"
    then obtain m where "json ev resp = Inl (Exn JSONDecodeError m)" ..
    with body show ?thesis
      by (simp add: bind_exn_def except_HTTPError_def)
  next
    assume "\<exists>v. json ev resp = Inr v \<and> (\<forall>d. v = PDict d \<longrightarrow> map_of d ''access_token'' = None)"
    then obtain v where v: "json ev resp = Inr v"
      and miss: "\<forall>d. v = PDict d \<longrightarrow> map_of d ''access_token'' = None" by blast
    from getitem_missing [OF miss, of ev] obtain e where
      e: "getitem ev v ''access_token'' = Inl e" "cls e = KeyError \<or> cls e = TypeError" by blast
    with body v show ?thesis
      by (auto simp: bind_exn_def except_HTTPError_def)
  qed
qed

theorem token_response_without_token_witness:
  "fst (get_auth_token (example_env (answer 200 ''text/html'' ''<html>''))
          (OPSClient PNone) ''key'' ''secret'' [])
     = Inl (Exn JSONDecodeError ''Expecting value: line 1 column 1 (char 0)'') \<and>
   fst (get_auth_token (example_env (answer 200 ''application/json'' ''{}''))
          (OPSClient PNone) ''key'' ''secret'' [])
     = Inl (Exn KeyError [CHR 0x27, CHR ''a'', CHR ''c'', CHR ''c'', CHR ''e'', CHR ''s'', CHR ''s'',
                          CHR ''_'', CHR ''t'', CHR ''o'', CHR ''k'', CHR ''e'', CHR ''n'', CHR 0x27])"
proof -
  let ?a = "example_env (answer 200 ''text/html'' ''<html>'')"
  let ?ra = "\<lparr>status_code = 200, resp_headers = [''content-type'' \<mapsto> ''text/html''], resp_text = ''<html>''\<rparr>"
  let ?b = "example_env (answer 200 ''application/json'' ''{}'')"
  let ?rb = "\<lparr>status_code = 200, resp_headers = [''content-type'' \<mapsto> ''application/json''], resp_text = ''{}''\<rparr>"
  have a: "http ?a (token_request ''key'' ''secret'') = Inr ?ra"
    by (simp add: example_env_def answer_def)
  have ja: "(\<exists>m. json ?a ?ra = Inl (Exn JSONDecodeError m)) \<or>
         (\<exists>v. json ?a ?ra = Inr v \<and> (\<forall>d. v = PDict d \<longrightarrow> map_of d ''access_token'' = None))"
    by (simp add: example_env_def)
  have b: "http ?b (token_request ''key'' ''secret'') = Inr ?rb"
    by (simp add: example_env_def answer_def)
  have jb: "(\<exists>m. json ?b ?rb = Inl (Exn JSONDecodeError m)) \<or>
         (\<exists>v. json ?b ?rb = Inr v \<and> (\<forall>d. v = PDict d \<longrightarrow> map_of d ''access_token'' = None))"
    by (simp add: example_env_def)
  have va: "fst (get_auth_token ?a (OPSClient PNone) ''key'' ''secret'' [])
     = Inl (Exn JSONDecodeError ''Expecting value: line 1 column 1 (char 0)'')"
    by (simp add: get_auth_token_def http_send_def Let_def bind_exn_def raise_for_status_def
          except_HTTPError_def example_env_def answer_def token_request_def)
  have vb: "fst (get_auth_token ?b (OPSClient PNone) ''key'' ''secret'' [])
     = Inl (Exn KeyError [CHR 0x27, CHR ''a'', CHR ''c'', CHR ''c'', CHR ''e'', CHR ''s'', CHR ''s'',
                          CHR ''_'', CHR ''t'', CHR ''o'', CHR ''k'', CHR ''e'', CHR ''n'', CHR 0x27])"
    by (simp add: get_auth_token_def http_send_def Let_def bind_exn_def raise_for_status_def
          except_HTTPError_def example_env_def answer_def token_request_def getitem_def)
  from token_response_without_token [OF a _ _ ja, of "OPSClient PNone" "[]"]
       token_response_without_token [OF b _ _ jb, of "OPSClient PNone" "[]"] va vb
  show ?thesis
    by simp
qed

end
